theory Spec2Isabelle
  imports Complex_Main "HOL-Library.Sublist"
begin

section \<open>Values of the schema\<close>

text \<open>
  The module \<^verbatim>\<open>app/models.py\<close> declares the tables of the application and the
  shapes its API validates. It has no functions: what it fixes is, for every class, the
  list of its fields, their types, their defaults and their constraints.

  A Python \<^verbatim>\<open>Decimal\<close> is an exact base-10 number; it is modelled by a rational, and
  the constraints \<^verbatim>\<open>decimal_places\<close> and \<^verbatim>\<open>max_digits\<close> of a field are predicates on it.
  A \<^verbatim>\<open>datetime\<close> or a \<^verbatim>\<open>date\<close> is a point on a clock that the caller reads.
\<close>

type_synonym decimal = rat
type_synonym datetime = nat
type_synonym date = nat

text \<open>\<^verbatim>\<open>decimal_places=n\<close>: the value has at most \<open>n\<close> digits after the point.\<close>

definition decimal_places_ok :: "nat \<Rightarrow> decimal \<Rightarrow> bool" where
  "decimal_places_ok n x = (of_int \<lfloor>x * 10 ^ n\<rfloor> = x * 10 ^ n)"

text \<open>
  \<^verbatim>\<open>Field(decimal_places=n, max_digits=m)\<close>: at most \<open>n\<close> digits after the point and at
  most \<open>m - n\<close> before it.
\<close>

definition decimal_field_ok :: "nat \<Rightarrow> nat \<Rightarrow> decimal \<Rightarrow> bool" where
  "decimal_field_ok m n x = (decimal_places_ok n x \<and> \<bar>x\<bar> < 10 ^ (m - n))"

text \<open>
  A number that a \<^verbatim>\<open>Decimal\<close> holds without rounding under a context of precision
  \<open>p\<close>: a coefficient of at most \<open>p\<close> digits at the exponent \<open>-n\<close>.
\<close>

definition exact_at :: "nat \<Rightarrow> nat \<Rightarrow> decimal \<Rightarrow> bool" where
  "exact_at p n x = (decimal_places_ok n x \<and> \<bar>x * 10 ^ n\<bar> < 10 ^ p)"

subsection \<open>Enumerations\<close>

datatype UserRole = ADMINISTRATOR | INVENTORY_MANAGER | FINANCIAL_STAFF | PRODUCTION_MANAGER

datatype InventoryMovementType = IN | OUT | ADJUSTMENT

datatype OrderStatus = PENDING | IN_PROGRESS | COMPLETED | CANCELLED | DELIVERED

section \<open>The declarations, field by field\<close>

text \<open>
  The annotation of a field. \<open>PFloat\<close> is Python's binary floating point: the
  annotation language has it, whether or not a class uses it.
\<close>

datatype py_type = PInt | PStr | PBool | PDecimal | PFloat | PDatetime | PDate | PEnum string

text \<open>
  What follows the \<^verbatim>\<open>=\<close> of a field: nothing (the field is required), \<^verbatim>\<open>default=\<close>
  with a value, or \<^verbatim>\<open>default_factory=\<close> with the name of the function called.
\<close>

datatype default_spec =
    NoDefault
  | DefaultNone
  | DefaultStr string
  | DefaultBool bool
  | DefaultDecimal decimal
  | DefaultEnum string
  | DefaultFactory string

record field_decl =
  fname :: string
  ftype :: py_type
  optional :: bool
  dflt :: default_spec
  primary_key :: bool
  unique :: bool
  foreign_key :: "string option"
  max_length :: "nat option"
  min_length :: "nat option"
  decimal_places :: "nat option"
  max_digits :: "nat option"

text \<open>A bare annotation \<^verbatim>\<open>name: T\<close>; the arguments of \<^verbatim>\<open>Field(...)\<close> update it.\<close>

definition fld :: "string \<Rightarrow> py_type \<Rightarrow> field_decl" where
  "fld n t = \<lparr>fname = n, ftype = t, optional = False, dflt = NoDefault,
     primary_key = False, unique = False, foreign_key = None, max_length = None,
     min_length = None, decimal_places = None, max_digits = None\<rparr>"

text \<open>\<^verbatim>\<open>name: Optional[T] = Field(default=None, ...)\<close>\<close>

definition opt :: "string \<Rightarrow> py_type \<Rightarrow> field_decl" where
  "opt n t = (fld n t)\<lparr>optional := True, dflt := DefaultNone\<rparr>"

text \<open>\<^verbatim>\<open>id: Optional[int] = Field(default=None, primary_key=True)\<close>\<close>

definition id_field :: field_decl where
  "id_field = (opt ''id'' PInt)\<lparr>primary_key := True\<rparr>"

text \<open>\<^verbatim>\<open>name: str = Field(max_length=n)\<close>\<close>

definition str_req :: "string \<Rightarrow> nat \<Rightarrow> field_decl" where
  "str_req n l = (fld n PStr)\<lparr>max_length := Some l\<rparr>"

text \<open>\<^verbatim>\<open>name: str = Field(default="", max_length=n)\<close>\<close>

definition str_dflt :: "string \<Rightarrow> nat \<Rightarrow> field_decl" where
  "str_dflt n l = (fld n PStr)\<lparr>dflt := DefaultStr [], max_length := Some l\<rparr>"

text \<open>\<^verbatim>\<open>name: str = Field(unique=True, max_length=n)\<close>\<close>

definition str_unique :: "string \<Rightarrow> nat \<Rightarrow> field_decl" where
  "str_unique n l = (fld n PStr)\<lparr>unique := True, max_length := Some l\<rparr>"

text \<open>\<^verbatim>\<open>name: Optional[str] = Field(default=None, max_length=n)\<close>\<close>

definition str_opt :: "string \<Rightarrow> nat \<Rightarrow> field_decl" where
  "str_opt n l = (opt n PStr)\<lparr>max_length := Some l\<rparr>"

text \<open>\<^verbatim>\<open>name: Decimal = Field(decimal_places=d, max_digits=m)\<close>\<close>

definition dec_req :: "string \<Rightarrow> nat \<Rightarrow> nat \<Rightarrow> field_decl" where
  "dec_req n d m = (fld n PDecimal)\<lparr>decimal_places := Some d, max_digits := Some m\<rparr>"

text \<open>\<^verbatim>\<open>name: Decimal = Field(decimal_places=d, max_digits=m, default=Decimal("0"))\<close>\<close>

definition dec_zero :: "string \<Rightarrow> nat \<Rightarrow> nat \<Rightarrow> field_decl" where
  "dec_zero n d m = (dec_req n d m)\<lparr>dflt := DefaultDecimal 0\<rparr>"

text \<open>\<^verbatim>\<open>name: Optional[Decimal] = Field(decimal_places=d, max_digits=m, default=None)\<close>\<close>

definition dec_opt :: "string \<Rightarrow> nat \<Rightarrow> nat \<Rightarrow> field_decl" where
  "dec_opt n d m = (opt n PDecimal)\<lparr>decimal_places := Some d, max_digits := Some m\<rparr>"

text \<open>\<^verbatim>\<open>name: int = Field(foreign_key=k)\<close>\<close>

definition fk_req :: "string \<Rightarrow> string \<Rightarrow> field_decl" where
  "fk_req n k = (fld n PInt)\<lparr>foreign_key := Some k\<rparr>"

text \<open>\<^verbatim>\<open>name: Optional[int] = Field(foreign_key=k, default=None)\<close>\<close>

definition fk_opt :: "string \<Rightarrow> string \<Rightarrow> field_decl" where
  "fk_opt n k = (opt n PInt)\<lparr>foreign_key := Some k\<rparr>"

text \<open>\<^verbatim>\<open>created_at: datetime = Field(default_factory=datetime.utcnow)\<close>\<close>

definition utcnow_field :: "string \<Rightarrow> field_decl" where
  "utcnow_field n = (fld n PDatetime)\<lparr>dflt := DefaultFactory ''datetime.utcnow''\<rparr>"

text \<open>\<^verbatim>\<open>name: date = Field(default_factory=date.today)\<close>\<close>

definition today_field :: "string \<Rightarrow> field_decl" where
  "today_field n = (fld n PDate)\<lparr>dflt := DefaultFactory ''date.today''\<rparr>"

text \<open>\<^verbatim>\<open>is_active: bool = Field(default=True)\<close>\<close>

definition bool_true :: "string \<Rightarrow> field_decl" where
  "bool_true n = (fld n PBool)\<lparr>dflt := DefaultBool True\<rparr>"

text \<open>\<^verbatim>\<open>name: E = Field(default=E.MEMBER)\<close>\<close>

definition enum_dflt :: "string \<Rightarrow> string \<Rightarrow> string \<Rightarrow> field_decl" where
  "enum_dflt n e v = (fld n (PEnum e))\<lparr>dflt := DefaultEnum v\<rparr>"

text \<open>
  A class: its name, whether it is a table (\<^verbatim>\<open>table=True\<close>) and its fields in the order
  of the source. The \<^verbatim>\<open>Relationship\<close> attributes are not columns and are left out.
\<close>

record class_decl =
  cname :: string
  is_table :: bool
  cfields :: "field_decl list"

subsection \<open>The tables\<close>

definition User_decl :: class_decl where
  "User_decl = \<lparr>cname = ''User'', is_table = True, cfields = [
     id_field,
     str_unique ''username'' 50,
     str_unique ''email'' 255,
     str_req ''password_hash'' 255,
     str_req ''full_name'' 100,
     enum_dflt ''role'' ''UserRole'' ''INVENTORY_MANAGER'',
     bool_true ''is_active'',
     utcnow_field ''created_at'',
     opt ''updated_at'' PDatetime]\<rparr>"

definition RawMaterial_decl :: class_decl where
  "RawMaterial_decl = \<lparr>cname = ''RawMaterial'', is_table = True, cfields = [
     id_field,
     str_unique ''code'' 50,
     str_req ''name'' 200,
     str_dflt ''description'' 1000,
     str_req ''unit'' 20,
     dec_zero ''unit_price'' 2 12,
     dec_zero ''current_stock'' 2 12,
     dec_zero ''minimum_stock'' 2 12,
     dec_opt ''maximum_stock'' 2 12,
     str_dflt ''supplier_name'' 200,
     str_dflt ''supplier_contact'' 200,
     utcnow_field ''created_at'',
     opt ''updated_at'' PDatetime]\<rparr>"

definition InventoryMovement_decl :: class_decl where
  "InventoryMovement_decl = \<lparr>cname = ''InventoryMovement'', is_table = True, cfields = [
     id_field,
     fk_req ''raw_material_id'' ''raw_materials.id'',
     fk_req ''user_id'' ''users.id'',
     fld ''movement_type'' (PEnum ''InventoryMovementType''),
     dec_req ''quantity'' 2 12,
     dec_zero ''unit_price'' 2 12,
     dec_zero ''total_value'' 2 12,
     str_dflt ''reference_number'' 100,
     str_dflt ''notes'' 500,
     utcnow_field ''movement_date'',
     utcnow_field ''created_at'']\<rparr>"

definition StockOpname_decl :: class_decl where
  "StockOpname_decl = \<lparr>cname = ''StockOpname'', is_table = True, cfields = [
     id_field,
     str_unique ''opname_number'' 50,
     str_req ''title'' 200,
     str_dflt ''description'' 1000,
     fk_req ''user_id'' ''users.id'',
     enum_dflt ''status'' ''StockOpnameStatus'' ''PLANNED'',
     fld ''planned_date'' PDate,
     opt ''started_at'' PDatetime,
     opt ''completed_at'' PDatetime,
     utcnow_field ''created_at'',
     opt ''updated_at'' PDatetime]\<rparr>"

definition StockOpnameItem_decl :: class_decl where
  "StockOpnameItem_decl = \<lparr>cname = ''StockOpnameItem'', is_table = True, cfields = [
     id_field,
     fk_req ''stock_opname_id'' ''stock_opnames.id'',
     fk_req ''raw_material_id'' ''raw_materials.id'',
     dec_req ''system_stock'' 2 12,
     dec_opt ''physical_stock'' 2 12,
     dec_opt ''difference'' 2 12,
     str_dflt ''notes'' 500,
     opt ''counted_at'' PDatetime,
     utcnow_field ''created_at'']\<rparr>"

definition Customer_decl :: class_decl where
  "Customer_decl = \<lparr>cname = ''Customer'', is_table = True, cfields = [
     id_field,
     str_req ''name'' 200,
     str_dflt ''company'' 200,
     str_dflt ''email'' 255,
     str_dflt ''phone'' 50,
     str_dflt ''address'' 1000,
     str_dflt ''city'' 100,
     str_dflt ''postal_code'' 20,
     utcnow_field ''created_at'',
     opt ''updated_at'' PDatetime]\<rparr>"

definition Order_decl :: class_decl where
  "Order_decl = \<lparr>cname = ''Order'', is_table = True, cfields = [
     id_field,
     str_unique ''order_number'' 50,
     fk_req ''customer_id'' ''customers.id'',
     enum_dflt ''status'' ''OrderStatus'' ''PENDING'',
     today_field ''order_date'',
     fld ''due_date'' PDate,
     opt ''completion_date'' PDate,
     opt ''delivery_date'' PDate,
     dec_zero ''total_amount'' 2 15,
     str_dflt ''notes'' 1000,
     utcnow_field ''created_at'',
     opt ''updated_at'' PDatetime]\<rparr>"

definition Product_decl :: class_decl where
  "Product_decl = \<lparr>cname = ''Product'', is_table = True, cfields = [
     id_field,
     str_unique ''code'' 50,
     str_req ''name'' 200,
     str_dflt ''description'' 1000,
     str_dflt ''category'' 100,
     dec_zero ''unit_price'' 2 12,
     utcnow_field ''created_at'',
     opt ''updated_at'' PDatetime]\<rparr>"

definition OrderItem_decl :: class_decl where
  "OrderItem_decl = \<lparr>cname = ''OrderItem'', is_table = True, cfields = [
     id_field,
     fk_req ''order_id'' ''orders.id'',
     fk_opt ''product_id'' ''products.id'',
     fk_opt ''raw_material_id'' ''raw_materials.id'',
     str_req ''item_name'' 200,
     dec_req ''quantity'' 2 12,
     dec_req ''unit_price'' 2 12,
     dec_req ''total_price'' 2 12,
     str_dflt ''notes'' 500,
     utcnow_field ''created_at'']\<rparr>"

definition FinancialCategory_decl :: class_decl where
  "FinancialCategory_decl = \<lparr>cname = ''FinancialCategory'', is_table = True, cfields = [
     id_field,
     str_req ''name'' 200,
     fld ''transaction_type'' (PEnum ''TransactionType''),
     str_dflt ''description'' 500,
     bool_true ''is_active'',
     utcnow_field ''created_at'']\<rparr>"

definition FinancialTransaction_decl :: class_decl where
  "FinancialTransaction_decl = \<lparr>cname = ''FinancialTransaction'', is_table = True, cfields = [
     id_field,
     str_unique ''transaction_number'' 50,
     fk_req ''user_id'' ''users.id'',
     fk_req ''category_id'' ''financial_categories.id'',
     fld ''transaction_type'' (PEnum ''TransactionType''),
     dec_req ''amount'' 2 15,
     str_req ''description'' 1000,
     str_dflt ''reference_number'' 100,
     today_field ''transaction_date'',
     str_dflt ''payment_method'' 100,
     utcnow_field ''created_at'',
     opt ''updated_at'' PDatetime]\<rparr>"

definition Department_decl :: class_decl where
  "Department_decl = \<lparr>cname = ''Department'', is_table = True, cfields = [
     id_field,
     str_unique ''name'' 200,
     str_dflt ''description'' 500,
     str_dflt ''manager_name'' 200,
     bool_true ''is_active'',
     utcnow_field ''created_at'']\<rparr>"

definition Employee_decl :: class_decl where
  "Employee_decl = \<lparr>cname = ''Employee'', is_table = True, cfields = [
     id_field,
     str_unique ''employee_number'' 50,
     str_req ''full_name'' 200,
     str_dflt ''email'' 255,
     str_dflt ''phone'' 50,
     str_dflt ''address'' 1000,
     str_dflt ''city'' 100,
     str_dflt ''postal_code'' 20,
     opt ''birth_date'' PDate,
     today_field ''hire_date'',
     opt ''termination_date'' PDate,
     fk_req ''department_id'' ''departments.id'',
     str_req ''position'' 200,
     dec_opt ''salary'' 2 12,
     bool_true ''is_active'',
     str_dflt ''emergency_contact_name'' 200,
     str_dflt ''emergency_contact_phone'' 50,
     str_dflt ''notes'' 1000,
     utcnow_field ''created_at'',
     opt ''updated_at'' PDatetime]\<rparr>"

subsection \<open>The shapes (\<^verbatim>\<open>table=False\<close>)\<close>

definition UserCreate_decl :: class_decl where
  "UserCreate_decl = \<lparr>cname = ''UserCreate'', is_table = False, cfields = [
     str_req ''username'' 50,
     str_req ''email'' 255,
     (fld ''password'' PStr)\<lparr>min_length := Some 8\<rparr>,
     str_req ''full_name'' 100,
     enum_dflt ''role'' ''UserRole'' ''INVENTORY_MANAGER'']\<rparr>"

definition UserUpdate_decl :: class_decl where
  "UserUpdate_decl = \<lparr>cname = ''UserUpdate'', is_table = False, cfields = [
     str_opt ''username'' 50,
     str_opt ''email'' 255,
     str_opt ''full_name'' 100,
     opt ''role'' (PEnum ''UserRole''),
     opt ''is_active'' PBool]\<rparr>"

definition RawMaterialCreate_decl :: class_decl where
  "RawMaterialCreate_decl = \<lparr>cname = ''RawMaterialCreate'', is_table = False, cfields = [
     str_req ''code'' 50,
     str_req ''name'' 200,
     str_dflt ''description'' 1000,
     str_req ''unit'' 20,
     dec_zero ''unit_price'' 2 12,
     dec_zero ''minimum_stock'' 2 12,
     dec_opt ''maximum_stock'' 2 12,
     str_dflt ''supplier_name'' 200,
     str_dflt ''supplier_contact'' 200]\<rparr>"

definition RawMaterialUpdate_decl :: class_decl where
  "RawMaterialUpdate_decl = \<lparr>cname = ''RawMaterialUpdate'', is_table = False, cfields = [
     str_opt ''name'' 200,
     str_opt ''description'' 1000,
     str_opt ''unit'' 20,
     dec_opt ''unit_price'' 2 12,
     dec_opt ''minimum_stock'' 2 12,
     dec_opt ''maximum_stock'' 2 12,
     str_opt ''supplier_name'' 200,
     str_opt ''supplier_contact'' 200]\<rparr>"

definition InventoryMovementCreate_decl :: class_decl where
  "InventoryMovementCreate_decl = \<lparr>cname = ''InventoryMovementCreate'', is_table = False,
   cfields = [
     fld ''raw_material_id'' PInt,
     fld ''movement_type'' (PEnum ''InventoryMovementType''),
     dec_req ''quantity'' 2 12,
     dec_zero ''unit_price'' 2 12,
     str_dflt ''reference_number'' 100,
     str_dflt ''notes'' 500]\<rparr>"

definition CustomerCreate_decl :: class_decl where
  "CustomerCreate_decl = \<lparr>cname = ''CustomerCreate'', is_table = False, cfields = [
     str_req ''name'' 200,
     str_dflt ''company'' 200,
     str_dflt ''email'' 255,
     str_dflt ''phone'' 50,
     str_dflt ''address'' 1000,
     str_dflt ''city'' 100,
     str_dflt ''postal_code'' 20]\<rparr>"

definition OrderCreate_decl :: class_decl where
  "OrderCreate_decl = \<lparr>cname = ''OrderCreate'', is_table = False, cfields = [
     str_req ''order_number'' 50,
     fld ''customer_id'' PInt,
     fld ''due_date'' PDate,
     str_dflt ''notes'' 1000]\<rparr>"

definition OrderUpdate_decl :: class_decl where
  "OrderUpdate_decl = \<lparr>cname = ''OrderUpdate'', is_table = False, cfields = [
     opt ''status'' (PEnum ''OrderStatus''),
     opt ''due_date'' PDate,
     opt ''completion_date'' PDate,
     opt ''delivery_date'' PDate,
     str_opt ''notes'' 1000]\<rparr>"

definition EmployeeCreate_decl :: class_decl where
  "EmployeeCreate_decl = \<lparr>cname = ''EmployeeCreate'', is_table = False, cfields = [
     str_req ''employee_number'' 50,
     str_req ''full_name'' 200,
     str_dflt ''email'' 255,
     str_dflt ''phone'' 50,
     str_dflt ''address'' 1000,
     opt ''birth_date'' PDate,
     today_field ''hire_date'',
     fld ''department_id'' PInt,
     str_req ''position'' 200,
     dec_opt ''salary'' 2 12,
     str_dflt ''emergency_contact_name'' 200,
     str_dflt ''emergency_contact_phone'' 50]\<rparr>"

definition FinancialTransactionCreate_decl :: class_decl where
  "FinancialTransactionCreate_decl = \<lparr>cname = ''FinancialTransactionCreate'',
   is_table = False, cfields = [
     str_req ''transaction_number'' 50,
     fld ''category_id'' PInt,
     fld ''transaction_type'' (PEnum ''TransactionType''),
     dec_req ''amount'' 2 15,
     str_req ''description'' 1000,
     str_dflt ''reference_number'' 100,
     today_field ''transaction_date'',
     str_dflt ''payment_method'' 100]\<rparr>"

text \<open>The module, class by class, in the order of the source.\<close>

definition tables :: "class_decl list" where
  "tables = [User_decl, RawMaterial_decl, InventoryMovement_decl, StockOpname_decl,
     StockOpnameItem_decl, Customer_decl, Order_decl, Product_decl, OrderItem_decl,
     FinancialCategory_decl, FinancialTransaction_decl, Department_decl, Employee_decl]"

definition shapes :: "class_decl list" where
  "shapes = [UserCreate_decl, UserUpdate_decl, RawMaterialCreate_decl, RawMaterialUpdate_decl,
     InventoryMovementCreate_decl, CustomerCreate_decl, OrderCreate_decl, OrderUpdate_decl,
     EmployeeCreate_decl, FinancialTransactionCreate_decl]"

definition schema :: "class_decl list" where
  "schema = tables @ shapes"

definition field_names :: "class_decl \<Rightarrow> string list" where
  "field_names c = map fname (cfields c)"

definition lookup_field :: "class_decl \<Rightarrow> string \<Rightarrow> field_decl option" where
  "lookup_field c n = find (\<lambda>f. fname f = n) (cfields c)"

section \<open>The classes as records\<close>

text \<open>
  The classes whose values the properties speak of, as records. A field of a record
  carries a prefix for its class, since several classes declare fields of the same name.
  The constructor \<open>new_C\<close> takes the fields that the class requires and gives every other
  field its declared default; a \<^verbatim>\<open>default_factory\<close> is a reading of the clock, taken as
  an argument.
\<close>

record User =
  u_id :: "int option"
  u_username :: string
  u_email :: string
  u_password_hash :: string
  u_full_name :: string
  u_role :: UserRole
  u_is_active :: bool
  u_created_at :: datetime
  u_updated_at :: "datetime option"

record UserUpdate =
  uu_username :: "string option"
  uu_email :: "string option"
  uu_full_name :: "string option"
  uu_role :: "UserRole option"
  uu_is_active :: "bool option"

record RawMaterial =
  rm_id :: "int option"
  rm_code :: string
  rm_name :: string
  rm_description :: string
  rm_unit :: string
  rm_unit_price :: decimal
  rm_current_stock :: decimal
  rm_minimum_stock :: decimal
  rm_maximum_stock :: "decimal option"
  rm_supplier_name :: string
  rm_supplier_contact :: string
  rm_created_at :: datetime
  rm_updated_at :: "datetime option"

record RawMaterialCreate =
  rmc_code :: string
  rmc_name :: string
  rmc_description :: string
  rmc_unit :: string
  rmc_unit_price :: decimal
  rmc_minimum_stock :: decimal
  rmc_maximum_stock :: "decimal option"
  rmc_supplier_name :: string
  rmc_supplier_contact :: string

record RawMaterialUpdate =
  rmu_name :: "string option"
  rmu_description :: "string option"
  rmu_unit :: "string option"
  rmu_unit_price :: "decimal option"
  rmu_minimum_stock :: "decimal option"
  rmu_maximum_stock :: "decimal option"
  rmu_supplier_name :: "string option"
  rmu_supplier_contact :: "string option"

record InventoryMovement =
  im_id :: "int option"
  im_raw_material_id :: int
  im_user_id :: int
  im_movement_type :: InventoryMovementType
  im_quantity :: decimal
  im_unit_price :: decimal
  im_total_value :: decimal
  im_reference_number :: string
  im_notes :: string
  im_movement_date :: datetime
  im_created_at :: datetime

record InventoryMovementCreate =
  imc_raw_material_id :: int
  imc_movement_type :: InventoryMovementType
  imc_quantity :: decimal
  imc_unit_price :: decimal
  imc_reference_number :: string
  imc_notes :: string

record StockOpnameItem =
  soi_id :: "int option"
  soi_stock_opname_id :: int
  soi_raw_material_id :: int
  soi_system_stock :: decimal
  soi_physical_stock :: "decimal option"
  soi_difference :: "decimal option"
  soi_notes :: string
  soi_counted_at :: "datetime option"
  soi_created_at :: datetime

record Order =
  o_id :: "int option"
  o_order_number :: string
  o_customer_id :: int
  o_status :: OrderStatus
  o_order_date :: date
  o_due_date :: date
  o_completion_date :: "date option"
  o_delivery_date :: "date option"
  o_total_amount :: decimal
  o_notes :: string
  o_created_at :: datetime
  o_updated_at :: "datetime option"

record OrderCreate =
  oc_order_number :: string
  oc_customer_id :: int
  oc_due_date :: date
  oc_notes :: string

record OrderUpdate =
  ou_status :: "OrderStatus option"
  ou_due_date :: "date option"
  ou_completion_date :: "date option"
  ou_delivery_date :: "date option"
  ou_notes :: "string option"

record OrderItem =
  oi_id :: "int option"
  oi_order_id :: int
  oi_product_id :: "int option"
  oi_raw_material_id :: "int option"
  oi_item_name :: string
  oi_quantity :: decimal
  oi_unit_price :: decimal
  oi_total_price :: decimal
  oi_notes :: string
  oi_created_at :: datetime

subsection \<open>Constructors with the declared defaults\<close>

definition new_RawMaterial :: "string \<Rightarrow> string \<Rightarrow> string \<Rightarrow> datetime \<Rightarrow> RawMaterial" where
  "new_RawMaterial code name unit now =
     \<lparr>rm_id = None, rm_code = code, rm_name = name, rm_description = [], rm_unit = unit,
      rm_unit_price = 0, rm_current_stock = 0, rm_minimum_stock = 0, rm_maximum_stock = None,
      rm_supplier_name = [], rm_supplier_contact = [], rm_created_at = now,
      rm_updated_at = None\<rparr>"

definition new_InventoryMovement ::
  "int \<Rightarrow> int \<Rightarrow> InventoryMovementType \<Rightarrow> decimal \<Rightarrow> datetime \<Rightarrow> datetime \<Rightarrow> InventoryMovement"
where
  "new_InventoryMovement material user mt qty moved now =
     \<lparr>im_id = None, im_raw_material_id = material, im_user_id = user, im_movement_type = mt,
      im_quantity = qty, im_unit_price = 0, im_total_value = 0, im_reference_number = [],
      im_notes = [], im_movement_date = moved, im_created_at = now\<rparr>"

definition new_StockOpnameItem :: "int \<Rightarrow> int \<Rightarrow> decimal \<Rightarrow> datetime \<Rightarrow> StockOpnameItem" where
  "new_StockOpnameItem opname material system now =
     \<lparr>soi_id = None, soi_stock_opname_id = opname, soi_raw_material_id = material,
      soi_system_stock = system, soi_physical_stock = None, soi_difference = None,
      soi_notes = [], soi_counted_at = None, soi_created_at = now\<rparr>"

definition new_Order :: "string \<Rightarrow> int \<Rightarrow> date \<Rightarrow> date \<Rightarrow> datetime \<Rightarrow> Order" where
  "new_Order number customer due today now =
     \<lparr>o_id = None, o_order_number = number, o_customer_id = customer, o_status = PENDING,
      o_order_date = today, o_due_date = due, o_completion_date = None,
      o_delivery_date = None, o_total_amount = 0, o_notes = [], o_created_at = now,
      o_updated_at = None\<rparr>"

definition new_OrderItem ::
  "int \<Rightarrow> string \<Rightarrow> decimal \<Rightarrow> decimal \<Rightarrow> decimal \<Rightarrow> datetime \<Rightarrow> OrderItem"
where
  "new_OrderItem oid name qty price tprice now =
     \<lparr>oi_id = None, oi_order_id = oid, oi_product_id = None, oi_raw_material_id = None,
      oi_item_name = name, oi_quantity = qty, oi_unit_price = price, oi_total_price = tprice,
      oi_notes = [], oi_created_at = now\<rparr>"

text \<open>The update shapes with no field given: every field at its default \<^verbatim>\<open>None\<close>.\<close>

definition new_UserUpdate :: UserUpdate where
  "new_UserUpdate = \<lparr>uu_username = None, uu_email = None, uu_full_name = None,
     uu_role = None, uu_is_active = None\<rparr>"

definition new_RawMaterialUpdate :: RawMaterialUpdate where
  "new_RawMaterialUpdate = \<lparr>rmu_name = None, rmu_description = None, rmu_unit = None,
     rmu_unit_price = None, rmu_minimum_stock = None, rmu_maximum_stock = None,
     rmu_supplier_name = None, rmu_supplier_contact = None\<rparr>"

definition new_OrderUpdate :: OrderUpdate where
  "new_OrderUpdate = \<lparr>ou_status = None, ou_due_date = None, ou_completion_date = None,
     ou_delivery_date = None, ou_notes = None\<rparr>"

subsection \<open>An entity from its create shape\<close>

text \<open>
  The fields of the shape are copied into the entity of the same name
  (\<^verbatim>\<open>Entity(**shape.dict())\<close>); a field that the shape does not have keeps the default
  that the entity declares. \<^verbatim>\<open>InventoryMovement.user_id\<close> is required and is not a field
  of \<^verbatim>\<open>InventoryMovementCreate\<close>: the caller gives it.
\<close>

definition RawMaterial_from_create :: "RawMaterialCreate \<Rightarrow> datetime \<Rightarrow> RawMaterial" where
  "RawMaterial_from_create c now =
     (new_RawMaterial (rmc_code c) (rmc_name c) (rmc_unit c) now)
       \<lparr>rm_description := rmc_description c, rm_unit_price := rmc_unit_price c,
        rm_minimum_stock := rmc_minimum_stock c, rm_maximum_stock := rmc_maximum_stock c,
        rm_supplier_name := rmc_supplier_name c,
        rm_supplier_contact := rmc_supplier_contact c\<rparr>"

definition InventoryMovement_from_create ::
  "InventoryMovementCreate \<Rightarrow> int \<Rightarrow> datetime \<Rightarrow> datetime \<Rightarrow> InventoryMovement"
where
  "InventoryMovement_from_create c user moved now =
     (new_InventoryMovement (imc_raw_material_id c) user (imc_movement_type c)
        (imc_quantity c) moved now)
       \<lparr>im_unit_price := imc_unit_price c, im_reference_number := imc_reference_number c,
        im_notes := imc_notes c\<rparr>"

definition Order_from_create :: "OrderCreate \<Rightarrow> date \<Rightarrow> datetime \<Rightarrow> Order" where
  "Order_from_create c today now =
     (new_Order (oc_order_number c) (oc_customer_id c) (oc_due_date c) today now)
       \<lparr>o_notes := oc_notes c\<rparr>"

section \<open>The totals that the specification derives\<close>

text \<open>
  The specification reads four stored fields as derived values. Each definition below
  states one of these readings in the specification's words, next to the field that the
  schema stores, so that the two can be compared.
\<close>

text \<open>A movement of type in or adjustment adds its quantity, one of type out subtracts it.\<close>

fun spec_signed_quantity :: "InventoryMovement \<Rightarrow> decimal" where
  "spec_signed_quantity m =
     (case im_movement_type m of
        IN \<Rightarrow> im_quantity m
      | ADJUSTMENT \<Rightarrow> im_quantity m
      | OUT \<Rightarrow> - im_quantity m)"

text \<open>The movements of a material: the rows whose foreign key is its identifier.\<close>

definition movements_of :: "RawMaterial \<Rightarrow> InventoryMovement list \<Rightarrow> InventoryMovement list" where
  "movements_of r ms = filter (\<lambda>m. rm_id r = Some (im_raw_material_id m)) ms"

definition spec_replay_stock :: "RawMaterial \<Rightarrow> InventoryMovement list \<Rightarrow> decimal" where
  "spec_replay_stock r ms = sum_list (map spec_signed_quantity (movements_of r ms))"

definition spec_stock_consistent :: "RawMaterial \<Rightarrow> InventoryMovement list \<Rightarrow> bool" where
  "spec_stock_consistent r ms = (rm_current_stock r = spec_replay_stock r ms)"

definition spec_total_value_ok :: "InventoryMovement \<Rightarrow> bool" where
  "spec_total_value_ok m = (im_total_value m = im_quantity m * im_unit_price m)"

definition spec_total_price_ok :: "OrderItem \<Rightarrow> bool" where
  "spec_total_price_ok i = (oi_total_price i = oi_quantity i * oi_unit_price i)"

definition items_of :: "Order \<Rightarrow> OrderItem list \<Rightarrow> OrderItem list" where
  "items_of ord its = filter (\<lambda>i. o_id ord = Some (oi_order_id i)) its"

definition spec_total_amount_ok :: "Order \<Rightarrow> OrderItem list \<Rightarrow> bool" where
  "spec_total_amount_ok ord its =
     (o_total_amount ord = sum_list (map oi_total_price (items_of ord its)))"

definition spec_difference_ok :: "StockOpnameItem \<Rightarrow> bool" where
  "spec_difference_ok i =
     (case soi_physical_stock i of
        None \<Rightarrow> True
      | Some p \<Rightarrow> soi_difference i = Some (p - soi_system_stock i))"

section \<open>Create shapes against their entities\<close>

text \<open>The fields that a class requires: those declared with no default.\<close>

definition required_fields :: "class_decl \<Rightarrow> string list" where
  "required_fields c = map fname (filter (\<lambda>f. dflt f = NoDefault) (cfields c))"

text \<open>
  The fields that the specification calls server-assigned: the identifier, the
  timestamps and the computed totals.
\<close>

definition server_assigned :: "string list" where
  "server_assigned = [''id'', ''created_at'', ''updated_at'',
     ''total_value'', ''total_price'', ''total_amount'']"

text \<open>A table and the shape named after it with the suffix \<^verbatim>\<open>Create\<close>.\<close>

definition create_pairs :: "(class_decl \<times> class_decl) list" where
  "create_pairs =
     concat (map (\<lambda>e. map (\<lambda>s. (e, s))
       (filter (\<lambda>s. cname s = cname e @ ''Create'') shapes)) tables)"

text \<open>
  The required fields of the entity that are neither server-assigned, nor in \<open>extra\<close>, nor
  fields of the shape.
\<close>

definition missing_required :: "string list \<Rightarrow> class_decl \<Rightarrow> class_decl \<Rightarrow> string list" where
  "missing_required extra e s =
     filter (\<lambda>n. n \<notin> set (server_assigned @ extra) \<and> n \<notin> set (field_names s))
       (required_fields e)"

definition spec_create_carries_required :: "class_decl \<Rightarrow> class_decl \<Rightarrow> bool" where
  "spec_create_carries_required e s = (missing_required [] e s = [])"

section \<open>Applying an update shape\<close>

text \<open>
  A field of an update shape is optional with default \<^verbatim>\<open>None\<close>: \<open>given v old\<close> is the
  value to store for a field that the shape gives as \<open>v\<close>, and \<open>stamped stamp old\<close> the
  value of \<^verbatim>\<open>updated_at\<close> when the caller stamps the time \<open>stamp\<close>, if any.
\<close>

definition given :: "'a option \<Rightarrow> 'a \<Rightarrow> 'a" where
  "given v old = (case v of None \<Rightarrow> old | Some x \<Rightarrow> x)"

definition stamped :: "datetime option \<Rightarrow> datetime option \<Rightarrow> datetime option" where
  "stamped stamp old = (case stamp of None \<Rightarrow> old | Some t \<Rightarrow> Some t)"

text \<open>
  Modelled from the spec: the function that applies a \<^verbatim>\<open>UserUpdate\<close> to a \<^verbatim>\<open>User\<close> is
  not in \<^verbatim>\<open>app/models.py\<close>, which declares the shape only. The specification gives its
  behaviour: an update shape makes every mutable field optional and signals "leave
  unchanged" by absence, and an update may stamp the \<^verbatim>\<open>updated_at\<close> marker. The fields
  are those that the source declares for \<^verbatim>\<open>UserUpdate\<close>; an absent field is one left at
  its default \<^verbatim>\<open>None\<close>.
\<close>

definition apply_UserUpdate :: "UserUpdate \<Rightarrow> datetime option \<Rightarrow> User \<Rightarrow> User" where
  "apply_UserUpdate upd stamp u =
     u\<lparr>u_username := given (uu_username upd) (u_username u),
       u_email := given (uu_email upd) (u_email u),
       u_full_name := given (uu_full_name upd) (u_full_name u),
       u_role := given (uu_role upd) (u_role u),
       u_is_active := given (uu_is_active upd) (u_is_active u),
       u_updated_at := stamped stamp (u_updated_at u)\<rparr>"

text \<open>
  Modelled from the spec: the function that applies a \<^verbatim>\<open>RawMaterialUpdate\<close> to a
  \<^verbatim>\<open>RawMaterial\<close> is not in \<^verbatim>\<open>app/models.py\<close>; its behaviour is the specification's,
  as for \<^verbatim>\<open>UserUpdate\<close>, over the fields that the source declares for
  \<^verbatim>\<open>RawMaterialUpdate\<close>. \<^verbatim>\<open>maximum_stock\<close> is optional in the entity too; a value given
  by the shape is stored as the new value.
\<close>

definition apply_RawMaterialUpdate ::
  "RawMaterialUpdate \<Rightarrow> datetime option \<Rightarrow> RawMaterial \<Rightarrow> RawMaterial"
where
  "apply_RawMaterialUpdate upd stamp r =
     r\<lparr>rm_name := given (rmu_name upd) (rm_name r),
       rm_description := given (rmu_description upd) (rm_description r),
       rm_unit := given (rmu_unit upd) (rm_unit r),
       rm_unit_price := given (rmu_unit_price upd) (rm_unit_price r),
       rm_minimum_stock := given (rmu_minimum_stock upd) (rm_minimum_stock r),
       rm_maximum_stock :=
         (case rmu_maximum_stock upd of None \<Rightarrow> rm_maximum_stock r | Some x \<Rightarrow> Some x),
       rm_supplier_name := given (rmu_supplier_name upd) (rm_supplier_name r),
       rm_supplier_contact := given (rmu_supplier_contact upd) (rm_supplier_contact r),
       rm_updated_at := stamped stamp (rm_updated_at r)\<rparr>"

text \<open>
  Modelled from the spec: the function that applies an \<^verbatim>\<open>OrderUpdate\<close> to an \<^verbatim>\<open>Order\<close>
  is not in \<^verbatim>\<open>app/models.py\<close>; its behaviour is the specification's, as for
  \<^verbatim>\<open>UserUpdate\<close>, over the fields that the source declares for \<^verbatim>\<open>OrderUpdate\<close>.
  \<^verbatim>\<open>completion_date\<close> and \<^verbatim>\<open>delivery_date\<close> are optional in the entity too.
\<close>

definition apply_OrderUpdate :: "OrderUpdate \<Rightarrow> datetime option \<Rightarrow> Order \<Rightarrow> Order" where
  "apply_OrderUpdate upd stamp ord =
     ord\<lparr>o_status := given (ou_status upd) (o_status ord),
       o_due_date := given (ou_due_date upd) (o_due_date ord),
       o_completion_date :=
         (case ou_completion_date upd of None \<Rightarrow> o_completion_date ord | Some d \<Rightarrow> Some d),
       o_delivery_date :=
         (case ou_delivery_date upd of None \<Rightarrow> o_delivery_date ord | Some d \<Rightarrow> Some d),
       o_notes := given (ou_notes upd) (o_notes ord),
       o_updated_at := stamped stamp (o_updated_at ord)\<rparr>"

section \<open>Unique columns\<close>

text \<open>The columns declared with \<^verbatim>\<open>unique=True\<close>.\<close>

definition unique_columns :: "class_decl \<Rightarrow> string list" where
  "unique_columns c = map fname (filter unique (cfields c))"

text \<open>The fields of the schema whose name ends in \<^verbatim>\<open>_number\<close>, with their class.\<close>

definition number_fields :: "(string \<times> string) list" where
  "number_fields =
     concat (map (\<lambda>c. map (\<lambda>n. (cname c, n))
       (filter (\<lambda>n. suffix ''_number'' n) (field_names c))) tables)"

text \<open>
  The members of the enumerations of the module (\<^verbatim>\<open>class E(str, Enum)\<close>), by name.
\<close>

definition enum_decls :: "(string \<times> string list) list" where
  "enum_decls =
     [(''UserRole'',
        [''ADMINISTRATOR'', ''INVENTORY_MANAGER'', ''FINANCIAL_STAFF'', ''PRODUCTION_MANAGER'']),
      (''InventoryMovementType'', [''IN'', ''OUT'', ''ADJUSTMENT'']),
      (''OrderStatus'',
        [''PENDING'', ''IN_PROGRESS'', ''COMPLETED'', ''CANCELLED'', ''DELIVERED'']),
      (''TransactionType'', [''INCOME'', ''EXPENSE'']),
      (''StockOpnameStatus'', [''PLANNED'', ''IN_PROGRESS'', ''COMPLETED'', ''CANCELLED''])]"

text \<open>
  A value of a column, and a row: the columns that are given, by name. A column that is
  not given is absent: it is \<^verbatim>\<open>None\<close>, or takes the default of its field.
\<close>

datatype val =
    VInt int
  | VStr string
  | VBool bool
  | VDec decimal
  | VDatetime datetime
  | VDate date
  | VEnum string

type_synonym row = "(string \<times> val) list"

text \<open>
  The constraint that a validation failure names, beside the field: the four of the
  specification, and the type of the annotation.
\<close>

datatype constraint = Required | MaxLength | MinLength | DecimalPrecision | Unique | WrongType

datatype error = ValidationFailure string constraint

text \<open>
  Modelled from the spec: the validation of a value against the declaration of its field
  is done by the library and the database, not by \<^verbatim>\<open>app/models.py\<close>. The specification
  says that violations of field length, required-ness, decimal precision and uniqueness
  are rejected before persistence; the shapes being typed contracts, a value of another
  type than the annotation's is rejected too. The bounds are those that the source
  declares: \<^verbatim>\<open>max_length\<close>, \<^verbatim>\<open>min_length\<close>, \<^verbatim>\<open>decimal_places\<close> and \<^verbatim>\<open>max_digits\<close>.
\<close>

fun check_value :: "field_decl \<Rightarrow> val \<Rightarrow> constraint option" where
  "check_value f (VStr s) =
     (if ftype f \<noteq> PStr then Some WrongType
      else if (case max_length f of None \<Rightarrow> False | Some l \<Rightarrow> l < length s) then Some MaxLength
      else if (case min_length f of None \<Rightarrow> False | Some l \<Rightarrow> length s < l) then Some MinLength
      else None)"
| "check_value f (VDec d) =
     (if ftype f \<noteq> PDecimal then Some WrongType
      else (case (max_digits f, decimal_places f) of
              (Some m, Some n) \<Rightarrow> if decimal_field_ok m n d then None else Some DecimalPrecision
            | _ \<Rightarrow> None))"
| "check_value f (VInt i) = (if ftype f = PInt then None else Some WrongType)"
| "check_value f (VBool b) = (if ftype f = PBool then None else Some WrongType)"
| "check_value f (VDatetime t) = (if ftype f = PDatetime then None else Some WrongType)"
| "check_value f (VDate t) = (if ftype f = PDate then None else Some WrongType)"
| "check_value f (VEnum m) =
     (case ftype f of
        PEnum e \<Rightarrow>
          (case map_of enum_decls e of
             None \<Rightarrow> Some WrongType
           | Some ms \<Rightarrow> if m \<in> set ms then None else Some WrongType)
      | _ \<Rightarrow> Some WrongType)"

text \<open>
  Modelled from the spec: required-ness. A field declared with no default must be given;
  a field with a default may be absent.
\<close>

definition check_field :: "field_decl \<Rightarrow> val option \<Rightarrow> constraint option" where
  "check_field f v =
     (case v of
        None \<Rightarrow> if dflt f = NoDefault then Some Required else None
      | Some x \<Rightarrow> check_value f x)"

text \<open>
  Modelled from the spec: the first field of the class, in the order of its declaration,
  whose constraint the row violates, with that constraint.
\<close>

fun first_violation :: "field_decl list \<Rightarrow> row \<Rightarrow> (string \<times> constraint) option" where
  "first_violation [] r = None"
| "first_violation (f # fs) r =
     (case check_field f (map_of r (fname f)) of
        Some k \<Rightarrow> Some (fname f, k)
      | None \<Rightarrow> first_violation fs r)"

definition valid_row :: "class_decl \<Rightarrow> row \<Rightarrow> bool" where
  "valid_row c r = (first_violation (cfields c) r = None)"

text \<open>
  A row conflicts with a table in a column when it has a value there that a row of the
  table has too.
\<close>

definition conflicts :: "row list \<Rightarrow> row \<Rightarrow> string \<Rightarrow> bool" where
  "conflicts tbl r col =
     (case map_of r col of
        None \<Rightarrow> False
      | Some v \<Rightarrow> list_ex (\<lambda>r'. map_of r' col = Some v) tbl)"

text \<open>
  Modelled from the spec: the insertion of a row into a table is the work of the
  data-access layer and of the database, neither of which is in \<^verbatim>\<open>app/models.py\<close>. The
  specification says that violations of field length, required-ness, decimal precision
  or uniqueness are rejected before persistence and reported as a validation failure
  naming the field and the constraint. The fields are checked first, then the columns
  that the source declares with \<^verbatim>\<open>unique=True\<close>; the result is the outcome and the
  table afterwards.
\<close>

definition create_entity :: "class_decl \<Rightarrow> row list \<Rightarrow> row \<Rightarrow> (error + unit) \<times> row list" where
  "create_entity c tbl r =
     (case first_violation (cfields c) r of
        Some (n, k) \<Rightarrow> (Inl (ValidationFailure n k), tbl)
      | None \<Rightarrow>
          (case find (conflicts tbl r) (unique_columns c) of
             Some col \<Rightarrow> (Inl (ValidationFailure col Unique), tbl)
           | None \<Rightarrow> (Inr (), tbl @ [r])))"

section \<open>Changes of the stock\<close>

text \<open>
  The reading that the stock of a material changes only through recorded movements, in
  the specification's words: between two states of a material and of the movements
  table, either the stored stock is the same or the movements of the material differ.
\<close>

definition spec_stock_changes_only_by_movements ::
  "RawMaterial \<Rightarrow> InventoryMovement list \<Rightarrow> RawMaterial \<Rightarrow> InventoryMovement list \<Rightarrow> bool"
where
  "spec_stock_changes_only_by_movements r ms r' ms' =
     (rm_current_stock r' = rm_current_stock r \<or> movements_of r' ms' \<noteq> movements_of r ms)"


section \<open>Monetary and quantity fields\<close>

definition money_names :: "string list" where
  "money_names = [''unit_price'', ''quantity'', ''total_value'', ''total_price'',
     ''total_amount'', ''amount'', ''salary'']"

text \<open>Every field of the schema with one of these names, with the name of its class.\<close>

definition money_fields :: "(string \<times> field_decl) list" where
  "money_fields =
     concat (map (\<lambda>c. map (\<lambda>f. (cname c, f))
       (filter (\<lambda>f. fname f \<in> set money_names) (cfields c))) schema)"

definition all_fields :: "field_decl list" where
  "all_fields = concat (map cfields schema)"

section \<open>Example rows\<close>

definition user_ana :: row where
  "user_ana = [(''username'', VStr ''ana''), (''email'', VStr ''ana@bags.id''),
     (''password_hash'', VStr ''5f4dcc3b''), (''full_name'', VStr ''Ana'')]"

text \<open>Another user, with the email of the first.\<close>

definition user_budi_same_email :: row where
  "user_budi_same_email = [(''username'', VStr ''budi''), (''email'', VStr ''ana@bags.id''),
     (''password_hash'', VStr ''9b74c989''), (''full_name'', VStr ''Budi'')]"

definition user_budi :: row where
  "user_budi = [(''username'', VStr ''budi''), (''email'', VStr ''budi@bags.id''),
     (''password_hash'', VStr ''9b74c989''), (''full_name'', VStr ''Budi'')]"

text \<open>A movement of 5 units under the purchase order \<^verbatim>\<open>PO-7\<close>.\<close>

definition movement_po7 :: row where
  "movement_po7 = [(''raw_material_id'', VInt 1), (''user_id'', VInt 1),
     (''movement_type'', VEnum ''IN''), (''quantity'', VDec 5),
     (''reference_number'', VStr ''PO-7'')]"

section \<open>Arithmetic on decimals\<close>

lemma decimal_places_ok_Ints: "decimal_places_ok n x \<longleftrightarrow> x * 10 ^ n \<in> \<int>"
  unfolding decimal_places_ok_def by (metis Ints_of_int of_int_floor)

lemma decimal_places_ok_zero: "decimal_places_ok n 0"
  by (simp add: decimal_places_ok_def)

lemma decimal_places_ok_add:
  "decimal_places_ok n a \<Longrightarrow> decimal_places_ok n b \<Longrightarrow> decimal_places_ok n (a + b)"
  by (simp add: decimal_places_ok_Ints distrib_right)

lemma decimal_places_ok_sum_list:
  "list_all (decimal_places_ok n) xs \<Longrightarrow> decimal_places_ok n (sum_list xs)"
  by (induction xs) (simp_all add: decimal_places_ok_zero decimal_places_ok_add)

lemma decimal_places_ok_mult:
  assumes "decimal_places_ok n a" and "decimal_places_ok m b"
  shows "decimal_places_ok (n + m) (a * b)"
proof -
  have "a * b * 10 ^ (n + m) = (a * 10 ^ n) * (b * 10 ^ m)"
    by (simp add: power_add)
  with assms show ?thesis
    by (simp only: decimal_places_ok_Ints Ints_mult)
qed

text \<open>
  The product of two values of fields with 12 digits, 2 of them after the point, has at
  most 24 digits, 4 of them after the point.
\<close>

lemma product_exact:
  assumes a: "decimal_field_ok 12 2 a" and b: "decimal_field_ok 12 2 b"
  shows "exact_at 28 4 (a * b)"
proof -
  from a b have dp: "decimal_places_ok (2 + 2) (a * b)"
    by (simp only: decimal_field_ok_def decimal_places_ok_mult)
  from a b have "\<bar>a\<bar> < 10 ^ 10" and "\<bar>b\<bar> < 10 ^ 10"
    by (simp_all add: decimal_field_ok_def)
  then have "\<bar>a\<bar> * \<bar>b\<bar> < 10 ^ 10 * 10 ^ 10"
    by (intro mult_strict_mono') simp_all
  then have "\<bar>a * b * 10 ^ 4\<bar> < 10 ^ 28"
    by (simp add: abs_mult)
  with dp show ?thesis
    by (simp add: exact_at_def)
qed

lemma sum_exact:
  assumes a: "decimal_field_ok 15 2 a" and b: "decimal_field_ok 15 2 b"
  shows "exact_at 28 2 (a + b)"
proof -
  from a b have dp: "decimal_places_ok 2 (a + b)"
    by (simp only: decimal_field_ok_def decimal_places_ok_add)
  from a b have "\<bar>a\<bar> < 10000000000000" and "\<bar>b\<bar> < 10000000000000"
    by (simp_all add: decimal_field_ok_def)
  then have "\<bar>a + b\<bar> < 100000000000000000000000000"
    by linarith
  then have "\<bar>(a + b) * 10 ^ 2\<bar> < 10 ^ 28"
    by (simp add: abs_mult)
  with dp show ?thesis
    by (simp add: exact_at_def)
qed

section \<open>What the declarations contain\<close>

lemma money_fields_listed:
  "map (\<lambda>(c, f). (c, fname f, ftype f, decimal_places f, max_digits f)) money_fields =
    [(''RawMaterial'', ''unit_price'', PDecimal, Some 2, Some 12),
     (''InventoryMovement'', ''quantity'', PDecimal, Some 2, Some 12),
     (''InventoryMovement'', ''unit_price'', PDecimal, Some 2, Some 12),
     (''InventoryMovement'', ''total_value'', PDecimal, Some 2, Some 12),
     (''Order'', ''total_amount'', PDecimal, Some 2, Some 15),
     (''Product'', ''unit_price'', PDecimal, Some 2, Some 12),
     (''OrderItem'', ''quantity'', PDecimal, Some 2, Some 12),
     (''OrderItem'', ''unit_price'', PDecimal, Some 2, Some 12),
     (''OrderItem'', ''total_price'', PDecimal, Some 2, Some 12),
     (''FinancialTransaction'', ''amount'', PDecimal, Some 2, Some 15),
     (''Employee'', ''salary'', PDecimal, Some 2, Some 12),
     (''RawMaterialCreate'', ''unit_price'', PDecimal, Some 2, Some 12),
     (''RawMaterialUpdate'', ''unit_price'', PDecimal, Some 2, Some 12),
     (''InventoryMovementCreate'', ''quantity'', PDecimal, Some 2, Some 12),
     (''InventoryMovementCreate'', ''unit_price'', PDecimal, Some 2, Some 12),
     (''EmployeeCreate'', ''salary'', PDecimal, Some 2, Some 12),
     (''FinancialTransactionCreate'', ''amount'', PDecimal, Some 2, Some 15)]"
  by code_simp

lemma no_float_field: "list_all (\<lambda>f. ftype f \<noteq> PFloat) all_fields"
  by code_simp

lemma missing_listed:
  "map (\<lambda>(e, s). (cname e, cname s, missing_required [] e s)) create_pairs =
    [(''User'', ''UserCreate'', [''password_hash'']),
     (''RawMaterial'', ''RawMaterialCreate'', []),
     (''InventoryMovement'', ''InventoryMovementCreate'', [''user_id'']),
     (''Customer'', ''CustomerCreate'', []),
     (''Order'', ''OrderCreate'', []),
     (''FinancialTransaction'', ''FinancialTransactionCreate'', [''user_id'']),
     (''Employee'', ''EmployeeCreate'', [])]"
  by code_simp

lemma unique_columns_listed:
  "map (\<lambda>c. (cname c, unique_columns c)) tables =
    [(''User'', [''username'', ''email'']),
     (''RawMaterial'', [''code'']),
     (''InventoryMovement'', []),
     (''StockOpname'', [''opname_number'']),
     (''StockOpnameItem'', []),
     (''Customer'', []),
     (''Order'', [''order_number'']),
     (''Product'', [''code'']),
     (''OrderItem'', []),
     (''FinancialCategory'', []),
     (''FinancialTransaction'', [''transaction_number'']),
     (''Department'', [''name'']),
     (''Employee'', [''employee_number''])]"
  by code_simp

lemma number_fields_listed:
  "number_fields =
    [(''InventoryMovement'', ''reference_number''),
     (''StockOpname'', ''opname_number''),
     (''Order'', ''order_number''),
     (''FinancialTransaction'', ''transaction_number''),
     (''FinancialTransaction'', ''reference_number''),
     (''Employee'', ''employee_number'')]"
  by code_simp

section \<open>Inserting a row\<close>

lemma create_entity_failure_keeps:
  "fst (create_entity c tbl r) = Inl e \<Longrightarrow> snd (create_entity c tbl r) = tbl"
  by (auto simp add: create_entity_def split: option.splits prod.splits)

lemma find_conflict:
  assumes "col \<in> set (unique_columns c)" and "conflicts tbl r col"
  shows "\<exists>col'. col' \<in> set (unique_columns c) \<and>
           find (conflicts tbl r) (unique_columns c) = Some col'"
proof -
  from assms have "\<exists>x\<in>set (unique_columns c). conflicts tbl r x"
    by auto
  then obtain col' where f: "find (conflicts tbl r) (unique_columns c) = Some col'"
    by (cases "find (conflicts tbl r) (unique_columns c)") (auto simp add: find_None_iff)
  then have "col' \<in> set (unique_columns c)"
    by (auto simp add: find_Some_iff)
  with f show ?thesis by blast
qed

lemma create_entity_conflict_fails:
  assumes "col \<in> set (unique_columns c)" and "conflicts tbl r col"
  shows "\<exists>n k. create_entity c tbl r = (Inl (ValidationFailure n k), tbl)"
proof (cases "first_violation (cfields c) r")
  case None
  with find_conflict [OF assms] show ?thesis
    by (auto simp add: create_entity_def)
next
  case (Some nk)
  then show ?thesis
    by (cases nk) (simp add: create_entity_def)
qed

lemma create_entity_valid_duplicate:
  assumes "valid_row c r" and "col \<in> set (unique_columns c)" and "conflicts tbl r col"
  shows "\<exists>col'. col' \<in> set (unique_columns c) \<and>
           create_entity c tbl r = (Inl (ValidationFailure col' Unique), tbl)"
  using assms(1) find_conflict [OF assms(2,3)]
  by (auto simp add: create_entity_def valid_row_def)

lemma create_entity_fresh:
  assumes "valid_row c r"
    and "list_all (\<lambda>col. \<not> conflicts tbl r col) (unique_columns c)"
  shows "create_entity c tbl r = (Inr (), tbl @ [r])"
proof -
  from assms(2) have "find (conflicts tbl r) (unique_columns c) = None"
    by (simp add: find_None_iff list_all_iff)
  with assms(1) show ?thesis
    by (simp add: create_entity_def valid_row_def)
qed

text \<open>
  Rows that violate a constraint of a field: the empty row, a username of 51 characters,
  a quantity with three digits after the point, and a quantity of 11 digits before it.
\<close>

lemma create_entity_rejects_invalid:
  "create_entity User_decl [] [] = (Inl (ValidationFailure ''username'' Required), [])"
  "create_entity User_decl []
     [(''username'', VStr (replicate 51 CHR ''a'')), (''email'', VStr ''a@bags.id''),
      (''password_hash'', VStr ''5f4dcc3b''), (''full_name'', VStr ''A'')] =
   (Inl (ValidationFailure ''username'' MaxLength), [])"
  "create_entity InventoryMovement_decl []
     [(''raw_material_id'', VInt 1), (''user_id'', VInt 1), (''movement_type'', VEnum ''IN''),
      (''quantity'', VDec (1 / 1000))] =
   (Inl (ValidationFailure ''quantity'' DecimalPrecision), [])"
  "create_entity InventoryMovement_decl []
     [(''raw_material_id'', VInt 1), (''user_id'', VInt 1), (''movement_type'', VEnum ''IN''),
      (''quantity'', VDec 10000000000)] =
   (Inl (ValidationFailure ''quantity'' DecimalPrecision), [])"
  by code_simp+

section \<open>Sums of many values\<close>

lemma sum_list_bound:
  "list_all (decimal_field_ok 15 2) xs \<Longrightarrow> \<bar>sum_list xs\<bar> \<le> of_nat (length xs) * 10 ^ 13"
proof (induction xs)
  case Nil
  then show ?case by simp
next
  case (Cons x xs)
  then have "\<bar>x\<bar> \<le> 10 ^ 13" and "\<bar>sum_list xs\<bar> \<le> of_nat (length xs) * 10 ^ 13"
    by (simp_all add: decimal_field_ok_def)
  moreover have "\<bar>x + sum_list xs\<bar> \<le> \<bar>x\<bar> + \<bar>sum_list xs\<bar>"
    by (rule abs_triangle_ineq)
  ultimately show ?case
    by (simp add: distrib_right)
qed

lemma sum_list_exact:
  assumes ok: "list_all (decimal_field_ok 15 2) xs" and len: "length xs < 10 ^ 13"
  shows "exact_at 28 2 (sum_list xs)"
proof -
  from ok have "list_all (decimal_places_ok 2) xs"
    by (simp add: list_all_iff decimal_field_ok_def)
  then have dp: "decimal_places_ok 2 (sum_list xs)"
    by (rule decimal_places_ok_sum_list)
  from len have "(of_nat (length xs) :: rat) < of_nat (10 ^ 13)"
    by (simp only: of_nat_less_iff)
  then have "(of_nat (length xs) :: rat) * 10 ^ 13 < 10 ^ 13 * 10 ^ 13"
    by simp
  with sum_list_bound [OF ok] have "\<bar>sum_list xs\<bar> < 10 ^ 13 * 10 ^ 13"
    by (rule le_less_trans)
  then have "\<bar>sum_list xs * 10 ^ 2\<bar> < 10 ^ 28"
    by (simp add: abs_mult)
  with dp show ?thesis
    by (simp add: exact_at_def)
qed

section \<open>The stored totals\<close>

text \<open>
  C1. The specification asks that the stored \<^verbatim>\<open>current_stock\<close> of every raw material
  equals the replay of its movements, and that recording a movement preserves this. The
  schema declares \<^verbatim>\<open>current_stock\<close> as a stored column with default 0 and declares
  nothing that recomputes it. What holds of the declarations: a material constructed from
  a \<^verbatim>\<open>RawMaterialCreate\<close> has \<^verbatim>\<open>current_stock\<close> 0, whatever the shape holds; once it
  has its identifier, its stored stock equals the replay of its movements exactly when
  their signed quantities sum to 0, which is so while it has no movement.
\<close>

theorem stock_of_created_material:
  "rm_current_stock (RawMaterial_from_create c now) = 0 \<and>
   spec_stock_consistent ((RawMaterial_from_create c now)\<lparr>rm_id := Some i\<rparr>) ms =
     (spec_replay_stock ((RawMaterial_from_create c now)\<lparr>rm_id := Some i\<rparr>) ms = 0) \<and>
   spec_stock_consistent ((RawMaterial_from_create c now)\<lparr>rm_id := Some i\<rparr>) []"
  by (auto simp add: spec_stock_consistent_def spec_replay_stock_def movements_of_def
      RawMaterial_from_create_def new_RawMaterial_def)

text \<open>
  The material \<^verbatim>\<open>M1\<close>, created from its shape and stored under the identifier 1, and
  one movement of type \<^verbatim>\<open>in\<close> of quantity 5 for it, created from its shape: the stored
  stock is 0 and the replay gives 5.
\<close>

theorem stock_replay_counterexample:
  "\<not> spec_stock_consistent
     ((RawMaterial_from_create
        \<lparr>rmc_code = ''M1'', rmc_name = ''canvas'', rmc_description = [], rmc_unit = ''meter'',
         rmc_unit_price = 0, rmc_minimum_stock = 0, rmc_maximum_stock = None,
         rmc_supplier_name = [], rmc_supplier_contact = []\<rparr> 0)\<lparr>rm_id := Some 1\<rparr>)
     [InventoryMovement_from_create
        \<lparr>imc_raw_material_id = 1, imc_movement_type = IN, imc_quantity = 5,
         imc_unit_price = 0, imc_reference_number = [], imc_notes = []\<rparr> 1 0 0]"
  by (simp add: spec_stock_consistent_def spec_replay_stock_def movements_of_def
      RawMaterial_from_create_def new_RawMaterial_def InventoryMovement_from_create_def
      new_InventoryMovement_def)

text \<open>
  C2. The specification asks that \<^verbatim>\<open>total_price\<close> of every order item is its quantity
  times its unit price and that \<^verbatim>\<open>total_amount\<close> of every order is the sum over its
  items. The schema declares \<^verbatim>\<open>OrderItem.total_price\<close> as a required column that the
  caller gives, and \<^verbatim>\<open>Order.total_amount\<close> as a stored column with default 0. What holds
  of the declarations: an order item satisfies the first equality exactly when the caller
  gives that product as \<^verbatim>\<open>total_price\<close>; an order constructed from an \<^verbatim>\<open>OrderCreate\<close>
  has \<^verbatim>\<open>total_amount\<close> 0, which is the sum over its items exactly when that sum is 0, as
  it is for an order with no item.
\<close>

theorem order_totals_as_stored:
  "spec_total_price_ok (new_OrderItem oid nm q p t now) = (t = q * p) \<and>
   o_total_amount (Order_from_create c today now) = 0 \<and>
   spec_total_amount_ok ((Order_from_create c today now)\<lparr>o_id := Some i\<rparr>) its =
     (sum_list (map oi_total_price
        (items_of ((Order_from_create c today now)\<lparr>o_id := Some i\<rparr>) its)) = 0) \<and>
   spec_total_amount_ok ((Order_from_create c today now)\<lparr>o_id := Some i\<rparr>) []"
  by (auto simp add: spec_total_price_ok_def spec_total_amount_ok_def items_of_def
      new_OrderItem_def Order_from_create_def new_Order_def)

text \<open>
  An item of quantity 2 at unit price 3 given the total price 5; and the order
  \<^verbatim>\<open>SO-1\<close>, created from its shape and stored under the identifier 1, with one item of
  total price 6.
\<close>

theorem order_totals_counterexample:
  "\<not> spec_total_price_ok (new_OrderItem 1 ''tote bag'' 2 3 5 0) \<and>
   \<not> spec_total_amount_ok
     ((Order_from_create
        \<lparr>oc_order_number = ''SO-1'', oc_customer_id = 1, oc_due_date = 9, oc_notes = []\<rparr>
        0 0)\<lparr>o_id := Some 1\<rparr>)
     [new_OrderItem 1 ''tote bag'' 2 3 6 0]"
  by (simp add: spec_total_price_ok_def spec_total_amount_ok_def items_of_def
      new_OrderItem_def Order_from_create_def new_Order_def)

text \<open>
  C3. The specification asks that \<^verbatim>\<open>total_value\<close> of every inventory movement is its
  quantity times its unit price. The schema declares \<^verbatim>\<open>total_value\<close> as a stored column
  with default 0, and the create shape has no such field. What holds of the
  declarations: a movement constructed from an \<^verbatim>\<open>InventoryMovementCreate\<close> satisfies the
  equality exactly when its quantity or its unit price is 0; and a movement satisfies it
  exactly when the value stored in \<^verbatim>\<open>total_value\<close> is that product.
\<close>

theorem total_value_as_stored:
  "spec_total_value_ok (InventoryMovement_from_create c user moved now) =
     (imc_quantity c = 0 \<or> imc_unit_price c = 0) \<and>
   spec_total_value_ok (m\<lparr>im_total_value := v\<rparr>) = (v = im_quantity m * im_unit_price m)"
  by (auto simp add: spec_total_value_ok_def InventoryMovement_from_create_def
      new_InventoryMovement_def)

text \<open>A movement of quantity 2 at unit price 3, created from its shape: the total value is 0.\<close>

theorem total_value_counterexample:
  "\<not> spec_total_value_ok
     (InventoryMovement_from_create
        \<lparr>imc_raw_material_id = 1, imc_movement_type = IN, imc_quantity = 2,
         imc_unit_price = 3, imc_reference_number = [], imc_notes = []\<rparr> 1 0 0)"
  by (simp add: spec_total_value_ok_def InventoryMovement_from_create_def
      new_InventoryMovement_def)

text \<open>
  C4. The specification asks that \<^verbatim>\<open>difference\<close> of every stock opname item whose
  \<^verbatim>\<open>physical_stock\<close> is set equals the physical stock minus the system stock. The schema
  declares both as optional stored columns with default \<^verbatim>\<open>None\<close>, independent of each
  other. What holds of the declarations: an item constructed with the declared defaults
  has neither set; setting \<^verbatim>\<open>physical_stock\<close> alone leaves \<^verbatim>\<open>difference\<close> absent; and
  with \<^verbatim>\<open>physical_stock\<close> set the equality holds exactly when the value stored in
  \<^verbatim>\<open>difference\<close> is that difference.
\<close>

theorem difference_as_stored:
  "spec_difference_ok (new_StockOpnameItem opn mat s now) \<and>
   soi_difference ((new_StockOpnameItem opn mat s now)\<lparr>soi_physical_stock := Some p\<rparr>) = None \<and>
   spec_difference_ok
     ((new_StockOpnameItem opn mat s now)\<lparr>soi_physical_stock := Some p, soi_difference := d\<rparr>) =
     (d = Some (p - s))"
  by (simp add: spec_difference_ok_def new_StockOpnameItem_def)

text \<open>An item of system stock 10 counted at 8, with \<^verbatim>\<open>difference\<close> at its default.\<close>

theorem difference_counterexample:
  "\<not> spec_difference_ok ((new_StockOpnameItem 1 1 10 0)\<lparr>soi_physical_stock := Some 8\<rparr>)"
  by (simp add: spec_difference_ok_def new_StockOpnameItem_def)

text \<open>
  C9. For every \<^verbatim>\<open>InventoryMovementCreate\<close>, every user and every reading of the clock,
  the movement constructed from the shape and the declared defaults has \<^verbatim>\<open>total_value\<close>
  0, whatever the quantity and the unit price: the shape has no field \<^verbatim>\<open>total_value\<close>
  and the entity declares the default 0 for it.
\<close>

theorem created_movement_total_value_zero:
  "im_total_value (InventoryMovement_from_create c user moved now) = 0 \<and>
   ''total_value'' \<notin> set (field_names InventoryMovementCreate_decl) \<and>
   map_option dflt (lookup_field InventoryMovement_decl ''total_value'') =
     Some (DefaultDecimal 0)"
proof -
  have "im_total_value (InventoryMovement_from_create c user moved now) = 0"
    by (simp add: InventoryMovement_from_create_def new_InventoryMovement_def)
  moreover have "''total_value'' \<notin> set (field_names InventoryMovementCreate_decl)"
    by code_simp
  moreover have "map_option dflt (lookup_field InventoryMovement_decl ''total_value'') =
     Some (DefaultDecimal 0)"
    by code_simp
  ultimately show ?thesis by simp
qed

section \<open>Create shapes\<close>

text \<open>
  C5. The specification asks that a create shape carries every field that its entity
  requires, but for the identifier, the timestamps and the computed totals. Three
  entities require a field that their create shape does not have and that is none of
  these: \<^verbatim>\<open>user_id\<close> of \<^verbatim>\<open>InventoryMovement\<close> and of \<^verbatim>\<open>FinancialTransaction\<close>, and
  \<^verbatim>\<open>password_hash\<close> of \<^verbatim>\<open>User\<close>, for which \<^verbatim>\<open>UserCreate\<close> carries \<^verbatim>\<open>password\<close>. What
  holds of the declarations: these are the only such fields; with \<^verbatim>\<open>user_id\<close> and
  \<^verbatim>\<open>password_hash\<close> counted among the fields that the server gives, every create shape
  carries every field that its entity requires.
\<close>

theorem create_shapes_carry_required:
  "map (\<lambda>(e, s). (cname e, cname s, missing_required [] e s)) create_pairs =
    [(''User'', ''UserCreate'', [''password_hash'']),
     (''RawMaterial'', ''RawMaterialCreate'', []),
     (''InventoryMovement'', ''InventoryMovementCreate'', [''user_id'']),
     (''Customer'', ''CustomerCreate'', []),
     (''Order'', ''OrderCreate'', []),
     (''FinancialTransaction'', ''FinancialTransactionCreate'', [''user_id'']),
     (''Employee'', ''EmployeeCreate'', [])] \<and>
   list_all (\<lambda>(e, s). missing_required [''user_id'', ''password_hash''] e s = []) create_pairs"
proof -
  have "list_all (\<lambda>(e, s). missing_required [''user_id'', ''password_hash''] e s = [])
      create_pairs"
    by code_simp
  with missing_listed show ?thesis by blast
qed

text \<open>
  \<^verbatim>\<open>InventoryMovement\<close> and \<^verbatim>\<open>FinancialTransaction\<close> require \<^verbatim>\<open>user_id\<close>, which is not
  a field of their create shapes.
\<close>

theorem create_shape_user_id_counterexample:
  "\<not> spec_create_carries_required InventoryMovement_decl InventoryMovementCreate_decl \<and>
   \<not> spec_create_carries_required FinancialTransaction_decl FinancialTransactionCreate_decl \<and>
   missing_required [] InventoryMovement_decl InventoryMovementCreate_decl = [''user_id''] \<and>
   missing_required [] FinancialTransaction_decl FinancialTransactionCreate_decl = [''user_id'']"
  by code_simp

section \<open>Update shapes\<close>

text \<open>
  C6. For \<^verbatim>\<open>User\<close>, \<^verbatim>\<open>RawMaterial\<close> and \<^verbatim>\<open>Order\<close>: applying the update shape in which
  every field is absent gives the entity back with every field as it was, but for
  \<^verbatim>\<open>updated_at\<close>, which holds the stamp if one is given.
\<close>

theorem empty_update_frame:
  "apply_UserUpdate new_UserUpdate stamp u = u\<lparr>u_updated_at := stamped stamp (u_updated_at u)\<rparr> \<and>
   apply_RawMaterialUpdate new_RawMaterialUpdate stamp r =
     r\<lparr>rm_updated_at := stamped stamp (rm_updated_at r)\<rparr> \<and>
   apply_OrderUpdate new_OrderUpdate stamp ord =
     ord\<lparr>o_updated_at := stamped stamp (o_updated_at ord)\<rparr>"
  by (simp add: apply_UserUpdate_def new_UserUpdate_def apply_RawMaterialUpdate_def
      new_RawMaterialUpdate_def apply_OrderUpdate_def new_OrderUpdate_def given_def)

text \<open>
  C10. The specification concludes, from the absence of \<^verbatim>\<open>code\<close> and \<^verbatim>\<open>current_stock\<close>
  in \<^verbatim>\<open>RawMaterialUpdate\<close>, that the current stock changes only through recorded
  movements. The schema does not tie the column to the movements: \<^verbatim>\<open>current_stock\<close> is
  an ordinary stored field, which holds whatever is stored in it. What holds:
  \<^verbatim>\<open>RawMaterialUpdate\<close> has no field \<^verbatim>\<open>code\<close> and no field \<^verbatim>\<open>current_stock\<close>, and
  applying any update to any material leaves its code and its current stock as they
  were; no shape of the schema has a field \<^verbatim>\<open>current_stock\<close>.
\<close>

theorem update_keeps_code_and_stock:
  "rm_code (apply_RawMaterialUpdate upd stamp r) = rm_code r \<and>
   rm_current_stock (apply_RawMaterialUpdate upd stamp r) = rm_current_stock r \<and>
   ''code'' \<notin> set (field_names RawMaterialUpdate_decl) \<and>
   ''current_stock'' \<notin> set (field_names RawMaterialUpdate_decl) \<and>
   list_all (\<lambda>s. ''current_stock'' \<notin> set (field_names s)) shapes"
proof -
  have "rm_code (apply_RawMaterialUpdate upd stamp r) = rm_code r"
    and "rm_current_stock (apply_RawMaterialUpdate upd stamp r) = rm_current_stock r"
    by (simp_all add: apply_RawMaterialUpdate_def)
  moreover have "''code'' \<notin> set (field_names RawMaterialUpdate_decl)"
    by code_simp
  moreover have "''current_stock'' \<notin> set (field_names RawMaterialUpdate_decl)"
    by code_simp
  moreover have "list_all (\<lambda>s. ''current_stock'' \<notin> set (field_names s)) shapes"
    by code_simp
  ultimately show ?thesis by simp
qed

text \<open>
  The material \<^verbatim>\<open>M1\<close>, stored under the identifier 1 with the default stock 0 and no
  movement, and the same material with 12 stored in \<^verbatim>\<open>current_stock\<close>, still with no
  movement: the stock has changed and no movement is recorded.
\<close>

theorem stock_changed_without_movement_counterexample:
  "\<not> spec_stock_changes_only_by_movements
     ((new_RawMaterial ''M1'' ''canvas'' ''meter'' 0)\<lparr>rm_id := Some 1\<rparr>) []
     ((new_RawMaterial ''M1'' ''canvas'' ''meter'' 0)\<lparr>rm_id := Some 1, rm_current_stock := 12\<rparr>) []"
  by (simp add: spec_stock_changes_only_by_movements_def movements_of_def new_RawMaterial_def)

section \<open>Uniqueness\<close>

text \<open>
  C7. The specification asks that creating an entity whose value of a unique field
  already occurs is rejected, the stored state unchanged, and that creation with a fresh
  value succeeds; it counts every field named \<^verbatim>\<open>*_number\<close> among the unique ones. The
  schema declares \<^verbatim>\<open>reference_number\<close> of \<^verbatim>\<open>InventoryMovement\<close> and of
  \<^verbatim>\<open>FinancialTransaction\<close> without \<^verbatim>\<open>unique=True\<close>. What holds: the unique columns are
  \<^verbatim>\<open>User.username\<close>, \<^verbatim>\<open>User.email\<close>, \<^verbatim>\<open>RawMaterial.code\<close>, \<^verbatim>\<open>Product.code\<close>,
  \<^verbatim>\<open>Department.name\<close> and, of the six \<^verbatim>\<open>*_number\<close> fields, the four other than
  \<^verbatim>\<open>reference_number\<close>. Every creation that fails returns the table as it was. A row
  whose value in a unique column of its table already occurs there is rejected with a
  validation failure; when the row satisfies the constraints of its fields, the failure
  names a unique column and the constraint of uniqueness. A row that satisfies the
  constraints of its fields and conflicts in no unique column is appended.
\<close>

theorem unique_columns_rejected:
  "map (\<lambda>c. (cname c, unique_columns c)) tables =
    [(''User'', [''username'', ''email'']),
     (''RawMaterial'', [''code'']),
     (''InventoryMovement'', []),
     (''StockOpname'', [''opname_number'']),
     (''StockOpnameItem'', []),
     (''Customer'', []),
     (''Order'', [''order_number'']),
     (''Product'', [''code'']),
     (''OrderItem'', []),
     (''FinancialCategory'', []),
     (''FinancialTransaction'', [''transaction_number'']),
     (''Department'', [''name'']),
     (''Employee'', [''employee_number''])] \<and>
   number_fields =
    [(''InventoryMovement'', ''reference_number''),
     (''StockOpname'', ''opname_number''),
     (''Order'', ''order_number''),
     (''FinancialTransaction'', ''transaction_number''),
     (''FinancialTransaction'', ''reference_number''),
     (''Employee'', ''employee_number'')] \<and>
   (\<forall>c tbl r e. fst (create_entity c tbl r) = Inl e \<longrightarrow> snd (create_entity c tbl r) = tbl) \<and>
   (\<forall>c tbl r col. col \<in> set (unique_columns c) \<and> conflicts tbl r col \<longrightarrow>
      (\<exists>n k. create_entity c tbl r = (Inl (ValidationFailure n k), tbl))) \<and>
   (\<forall>c tbl r col. valid_row c r \<and> col \<in> set (unique_columns c) \<and> conflicts tbl r col \<longrightarrow>
      (\<exists>col'. col' \<in> set (unique_columns c) \<and>
         create_entity c tbl r = (Inl (ValidationFailure col' Unique), tbl))) \<and>
   (\<forall>c tbl r. valid_row c r \<and> list_all (\<lambda>col. \<not> conflicts tbl r col) (unique_columns c) \<longrightarrow>
      create_entity c tbl r = (Inr (), tbl @ [r]))"
  using unique_columns_listed number_fields_listed create_entity_failure_keeps
    create_entity_conflict_fails create_entity_valid_duplicate create_entity_fresh
  by blast

text \<open>
  One user is stored. A second user with the same email is rejected for the uniqueness
  of a column and the table is as it was; a second user with a fresh username and a
  fresh email is appended.
\<close>

theorem unique_columns_rejected_witness:
  "valid_row User_decl user_budi_same_email \<and>
   ''email'' \<in> set (unique_columns User_decl) \<and>
   conflicts [user_ana] user_budi_same_email ''email'' \<and>
   (\<exists>n k. create_entity User_decl [user_ana] user_budi_same_email =
      (Inl (ValidationFailure n k), [user_ana])) \<and>
   (\<exists>col'. col' \<in> set (unique_columns User_decl) \<and>
      create_entity User_decl [user_ana] user_budi_same_email =
      (Inl (ValidationFailure col' Unique), [user_ana])) \<and>
   fst (create_entity User_decl [user_ana] user_budi_same_email) =
     Inl (ValidationFailure ''email'' Unique) \<and>
   snd (create_entity User_decl [user_ana] user_budi_same_email) = [user_ana] \<and>
   valid_row User_decl user_budi \<and>
   list_all (\<lambda>col. \<not> conflicts [user_ana] user_budi col) (unique_columns User_decl) \<and>
   create_entity User_decl [user_ana] user_budi = (Inr (), [user_ana] @ [user_budi])"
proof -
  have v1: "valid_row User_decl user_budi_same_email"
    by code_simp
  have h1: "''email'' \<in> set (unique_columns User_decl)"
    by code_simp
  have h2: "conflicts [user_ana] user_budi_same_email ''email''"
    by code_simp
  have h3: "fst (create_entity User_decl [user_ana] user_budi_same_email) =
     Inl (ValidationFailure ''email'' Unique)"
    by code_simp
  have v2: "valid_row User_decl user_budi"
    by code_simp
  have h4: "list_all (\<lambda>col. \<not> conflicts [user_ana] user_budi col) (unique_columns User_decl)"
    by code_simp
  from unique_columns_rejected have
    k: "\<forall>c tbl r e. fst (create_entity c tbl r) = Inl e \<longrightarrow>
      snd (create_entity c tbl r) = tbl" and
    d: "\<forall>c tbl r col. col \<in> set (unique_columns c) \<and> conflicts tbl r col \<longrightarrow>
      (\<exists>n k. create_entity c tbl r = (Inl (ValidationFailure n k), tbl))" and
    u: "\<forall>c tbl r col. valid_row c r \<and> col \<in> set (unique_columns c) \<and> conflicts tbl r col \<longrightarrow>
      (\<exists>col'. col' \<in> set (unique_columns c) \<and>
         create_entity c tbl r = (Inl (ValidationFailure col' Unique), tbl))" and
    f: "\<forall>c tbl r. valid_row c r \<and>
      list_all (\<lambda>col. \<not> conflicts tbl r col) (unique_columns c) \<longrightarrow>
      create_entity c tbl r = (Inr (), tbl @ [r])"
    by blast+
  from k h3 have "snd (create_entity User_decl [user_ana] user_budi_same_email) = [user_ana]"
    by blast
  moreover from d h1 h2 have "\<exists>n k. create_entity User_decl [user_ana] user_budi_same_email =
      (Inl (ValidationFailure n k), [user_ana])"
    by blast
  moreover from u v1 h1 h2 have "\<exists>col'. col' \<in> set (unique_columns User_decl) \<and>
      create_entity User_decl [user_ana] user_budi_same_email =
      (Inl (ValidationFailure col' Unique), [user_ana])"
    by blast
  moreover from f v2 h4 have
    "create_entity User_decl [user_ana] user_budi = (Inr (), [user_ana] @ [user_budi])"
    by blast
  ultimately show ?thesis using v1 v2 h1 h2 h3 h4 by blast
qed

text \<open>
  \<^verbatim>\<open>InventoryMovement.reference_number\<close> is a \<^verbatim>\<open>*_number\<close> field and is not unique: a
  second movement with the reference number of a stored one satisfies the constraints of
  its fields and is appended.
\<close>

theorem reference_number_counterexample:
  "(''InventoryMovement'', ''reference_number'') \<in> set number_fields \<and>
   ''reference_number'' \<notin> set (unique_columns InventoryMovement_decl) \<and>
   valid_row InventoryMovement_decl movement_po7 \<and>
   conflicts [movement_po7] movement_po7 ''reference_number'' \<and>
   create_entity InventoryMovement_decl [movement_po7] movement_po7 =
     (Inr (), [movement_po7, movement_po7])"
  by code_simp

section \<open>Decimal fields\<close>

lemma decimal_fields_two_places:
  "list_all (\<lambda>f. decimal_places f = Some 2) (filter (\<lambda>f. ftype f = PDecimal) all_fields)"
  by code_simp

text \<open>
  C8. The specification concludes, from the declaration of the monetary and quantity
  fields as decimals with 2 digits after the point, that sums and products of them are
  exact. For products this fails: the product of two values with 2 digits after the
  point can need 4, so that it is not a value of such a field, and the product of two
  values of the fields of 15 digits can need more than the 28 digits to which Python's
  default context rounds. What holds: every field of the schema named \<^verbatim>\<open>unit_price\<close>,
  \<^verbatim>\<open>quantity\<close>, \<^verbatim>\<open>total_value\<close>, \<^verbatim>\<open>total_price\<close>, \<^verbatim>\<open>total_amount\<close>, \<^verbatim>\<open>amount\<close> or
  \<^verbatim>\<open>salary\<close>, in a table or in a shape, is declared \<^verbatim>\<open>Decimal\<close> with
  \<^verbatim>\<open>decimal_places=2\<close>, and with \<^verbatim>\<open>max_digits\<close> 12, or 15 for \<^verbatim>\<open>total_amount\<close> and
  \<^verbatim>\<open>amount\<close>; so is every other \<^verbatim>\<open>Decimal\<close> field, and no field is declared \<^verbatim>\<open>float\<close>.
  A sum of any number of values with 2 digits after the point has 2 digits after the
  point; the sum of fewer than \<open>10 ^ 13\<close> values of fields of at most 15 digits, and so
  the sum of two, has fewer than 28 digits and is exact; the product of two values of
  fields of 12 digits is exact with 4 digits after the point.
\<close>

theorem money_fields_decimal:
  "map (\<lambda>(c, f). (c, fname f, ftype f, decimal_places f, max_digits f)) money_fields =
    [(''RawMaterial'', ''unit_price'', PDecimal, Some 2, Some 12),
     (''InventoryMovement'', ''quantity'', PDecimal, Some 2, Some 12),
     (''InventoryMovement'', ''unit_price'', PDecimal, Some 2, Some 12),
     (''InventoryMovement'', ''total_value'', PDecimal, Some 2, Some 12),
     (''Order'', ''total_amount'', PDecimal, Some 2, Some 15),
     (''Product'', ''unit_price'', PDecimal, Some 2, Some 12),
     (''OrderItem'', ''quantity'', PDecimal, Some 2, Some 12),
     (''OrderItem'', ''unit_price'', PDecimal, Some 2, Some 12),
     (''OrderItem'', ''total_price'', PDecimal, Some 2, Some 12),
     (''FinancialTransaction'', ''amount'', PDecimal, Some 2, Some 15),
     (''Employee'', ''salary'', PDecimal, Some 2, Some 12),
     (''RawMaterialCreate'', ''unit_price'', PDecimal, Some 2, Some 12),
     (''RawMaterialUpdate'', ''unit_price'', PDecimal, Some 2, Some 12),
     (''InventoryMovementCreate'', ''quantity'', PDecimal, Some 2, Some 12),
     (''InventoryMovementCreate'', ''unit_price'', PDecimal, Some 2, Some 12),
     (''EmployeeCreate'', ''salary'', PDecimal, Some 2, Some 12),
     (''FinancialTransactionCreate'', ''amount'', PDecimal, Some 2, Some 15)] \<and>
   list_all (\<lambda>f. decimal_places f = Some 2) (filter (\<lambda>f. ftype f = PDecimal) all_fields) \<and>
   list_all (\<lambda>f. ftype f \<noteq> PFloat) all_fields \<and>
   (\<forall>xs. list_all (decimal_places_ok 2) xs \<longrightarrow> decimal_places_ok 2 (sum_list xs)) \<and>
   (\<forall>xs. list_all (decimal_field_ok 15 2) xs \<and> length xs < 10 ^ 13 \<longrightarrow>
      exact_at 28 2 (sum_list xs)) \<and>
   (\<forall>a b. decimal_field_ok 15 2 a \<and> decimal_field_ok 15 2 b \<longrightarrow> exact_at 28 2 (a + b)) \<and>
   (\<forall>a b. decimal_field_ok 12 2 a \<and> decimal_field_ok 12 2 b \<longrightarrow> exact_at 28 4 (a * b))"
  using money_fields_listed decimal_fields_two_places no_float_field
    decimal_places_ok_sum_list sum_list_exact sum_exact product_exact
  by blast

text \<open>
  The sum of 0.15 and 4.85; the sum of 19.99, 0.01 and 5; the sum of 19.99 and 0.01; the
  product of 0.15 by itself.
\<close>

theorem money_fields_decimal_witness:
  "list_all (decimal_places_ok 2) [15 / 100, 485 / 100] \<and>
   decimal_places_ok 2 (sum_list [15 / 100, 485 / 100]) \<and>
   list_all (decimal_field_ok 15 2) [1999 / 100, 1 / 100, 5] \<and>
   length [1999 / 100, 1 / 100, 5 :: decimal] < 10 ^ 13 \<and>
   exact_at 28 2 (sum_list [1999 / 100, 1 / 100, 5]) \<and>
   decimal_field_ok 15 2 (1999 / 100) \<and> decimal_field_ok 15 2 (1 / 100) \<and>
   exact_at 28 2 (1999 / 100 + 1 / 100) \<and>
   decimal_field_ok 12 2 (15 / 100) \<and> exact_at 28 4 (15 / 100 * (15 / 100))"
proof -
  have h1: "list_all (decimal_places_ok 2) [15 / 100, 485 / 100]" by code_simp
  have h2: "decimal_field_ok 15 2 (1999 / 100)" by code_simp
  have h3: "decimal_field_ok 15 2 (1 / 100)" by code_simp
  have h4: "decimal_field_ok 12 2 (15 / 100)" by code_simp
  have h5: "list_all (decimal_field_ok 15 2) [1999 / 100, 1 / 100, 5]" by code_simp
  have h6: "length [1999 / 100, 1 / 100, 5 :: decimal] < 10 ^ 13" by simp
  from money_fields_decimal have
    s: "\<forall>xs. list_all (decimal_places_ok 2) xs \<longrightarrow> decimal_places_ok 2 (sum_list xs)" and
    l: "\<forall>xs. list_all (decimal_field_ok 15 2) xs \<and> length xs < 10 ^ 13 \<longrightarrow>
      exact_at 28 2 (sum_list xs)" and
    a: "\<forall>a b. decimal_field_ok 15 2 a \<and> decimal_field_ok 15 2 b \<longrightarrow> exact_at 28 2 (a + b)" and
    m: "\<forall>a b. decimal_field_ok 12 2 a \<and> decimal_field_ok 12 2 b \<longrightarrow> exact_at 28 4 (a * b)"
    by blast+
  from s h1 have "decimal_places_ok 2 (sum_list [15 / 100, 485 / 100])" by blast
  moreover from l h5 h6 have "exact_at 28 2 (sum_list [1999 / 100, 1 / 100, 5])" by blast
  moreover from a h2 h3 have "exact_at 28 2 (1999 / 100 + 1 / 100)" by blast
  moreover from m h4 have "exact_at 28 4 (15 / 100 * (15 / 100))" by blast
  ultimately show ?thesis using h1 h2 h3 h4 h5 h6 by blast
qed

text \<open>
  0.15 is a value of \<^verbatim>\<open>quantity\<close> and of \<^verbatim>\<open>unit_price\<close>; its product by itself,
  0.0225, does not have 2 digits after the point and is not a value of \<^verbatim>\<open>total_value\<close>.
  9999999999999.99 is a value of \<^verbatim>\<open>amount\<close>; its product by itself has 30 digits, more
  than a context of precision 28 holds.
\<close>

theorem product_not_exact_counterexample:
  "decimal_field_ok 12 2 (15 / 100) \<and>
   \<not> decimal_places_ok 2 (15 / 100 * (15 / 100)) \<and>
   \<not> decimal_field_ok 12 2 (15 / 100 * (15 / 100)) \<and>
   decimal_field_ok 15 2 (999999999999999 / 100) \<and>
   \<not> exact_at 28 4 (999999999999999 / 100 * (999999999999999 / 100))"
  by code_simp

end
